theory Spec2Isabelle
  imports Main
begin

section \<open>The Graph object of the binding layer (graphobject.c)\<close>

text \<open>
  The file \<^verbatim>\<open>graphobject.c\<close> is the host-language face of one graph: a struct
  holding the native \<^verbatim>\<open>igraph_t\<close>, a finalizer callback, two cached sequence views
  and the weak-reference list, plus one entry point per operation. Each entry point
  parses its arguments, calls the native engine, passes a failure to the error bridge
  and releases its transient buffers.

  The embedding keeps that shape. A host object is a value of \<open>pyobj\<close>; the struct is
  a record; an entry point is a function from the struct and its arguments to the
  returned value (or the raised error), the struct afterwards, and the list of calls
  it made, in order. The native engine is an external library: its functions are the
  fields of a record \<open>externals\<close> that every entry point takes as its first argument.
\<close>

subsection \<open>Host objects\<close>

datatype pyobj =
    PyNone
  | PyNotImplemented
  | PyBool bool
  | PyInt int
  | PyStr string
  | PyList "pyobj list"
  | PyTuple "pyobj list"
  | PyDict "(string \<times> pyobj) list"
  | PyFunction string
  | PyOpaque string

type_synonym pydict = "(string \<times> pyobj) list"

datatype pyexc =
    AssertionError string
  | ValueError string
  | TypeError string
  | OverflowError string
  | MemoryError string
  | ConversionError string
  | EngineError int
  | NoErrorSet

subsection \<open>The native graph and the Graph struct\<close>

text \<open>
  \<^verbatim>\<open>g.attr\<close> is a \<^verbatim>\<open>void*\<close> that is either NULL or points to an array of three
  dictionaries, read as \<^verbatim>\<open>((PyObject**)self->g.attr)[i]\<close> with the indices
  \<^verbatim>\<open>ATTRHASH_IDX_GRAPH\<close>, \<^verbatim>\<open>ATTRHASH_IDX_VERTEX\<close>, \<^verbatim>\<open>ATTRHASH_IDX_EDGE\<close>
  (0, 1, 2).
\<close>

record attrhash =
  attr_graph :: pydict
  attr_vertex :: pydict
  attr_edge :: pydict

definition attr_slots :: "attrhash \<Rightarrow> pyobj list" where
  "attr_slots a = [PyDict (attr_graph a), PyDict (attr_vertex a), PyDict (attr_edge a)]"

record igraph_t =
  n :: nat
  directed :: bool
  edges :: "(nat \<times> nat) list"
  attr :: "attrhash option"

definition igraph_vcount :: "igraph_t \<Rightarrow> int" where
  "igraph_vcount gr = int (n gr)"

definition igraph_ecount :: "igraph_t \<Rightarrow> int" where
  "igraph_ecount gr = int (length (edges gr))"

record igraphmodule_GraphObject =
  g :: igraph_t
  destructor :: "pyobj option"
  vseq :: "pyobj option"
  eseq :: "pyobj option"
  weakreflist :: "pyobj option"

text \<open>
  A value passed to an operator (\<^verbatim>\<open>PyObject *other\<close>) may be a plain host object,
  a Graph, or a sequence holding any of these.
\<close>

datatype pyany =
    Plain pyobj
  | Graph igraphmodule_GraphObject
  | Sequence "pyany list"

subsection \<open>Calls made by an entry point\<close>

datatype event =
    Engine string
  | Destroy string
  | HandleError
  | Convert string
  | PyObject_ClearWeakRefs
  | PyObject_CallObject pyobj
  | PyObject_GC_UnTrack
  | Py_DECREF pyobj
  | PyObject_GC_Del
  | PyErr_SetString pyexc
  | PyErr_Clear
  | TpAlloc

text \<open>
  \<open>Engine f\<close> is a call of the engine function \<open>f\<close>; \<open>Destroy f\<close> is a call of one of
  the engine's buffer destructors (\<^verbatim>\<open>igraph_vector_destroy\<close> and the like);
  \<open>HandleError\<close> is \<^verbatim>\<open>igraphmodule_handle_igraph_error()\<close>; \<open>Convert f\<close> is a call
  into the conversion layer.
\<close>

type_synonym 'a outcome = "(pyexc + 'a) \<times> igraphmodule_GraphObject \<times> event list"

definition happens_before :: "event \<Rightarrow> event \<Rightarrow> event list \<Rightarrow> bool" where
  "happens_before a b tr = (a \<in> set (takeWhile (\<lambda>e. e \<noteq> b) tr) \<and> b \<in> set tr)"

subsection \<open>The external engine\<close>

datatype igraph_vs_t = VS_all | VS_1 int | VS_vector "int list"

datatype igraph_es_t = ES_vector "int list" | ES_pairs "int list"

text \<open>
  Every engine function returns its status code first (0 is success) and then what
  it wrote through its pointer arguments. Two things of the host stand beside them:
  \<open>tp_alloc\<close> is the host allocator (whether the allocation of a new Graph struct
  succeeds), and \<open>call_object\<close> is what \<^verbatim>\<open>PyObject_CallObject(f, NULL)\<close> returns for a
  callable \<open>f\<close>: its result, or NULL (\<open>None\<close>) when the call raises.
\<close>

record externals =
  igraph_add_vertices :: "igraph_t \<Rightarrow> int \<Rightarrow> int \<times> igraph_t"
  igraph_delete_vertices :: "igraph_t \<Rightarrow> igraph_vs_t \<Rightarrow> int \<times> igraph_t"
  igraph_add_edges :: "igraph_t \<Rightarrow> int list \<Rightarrow> int \<times> igraph_t"
  igraph_es_vector :: "int list \<Rightarrow> int \<times> igraph_es_t"
  igraph_es_pairs :: "int list \<Rightarrow> int \<times> igraph_es_t"
  igraph_delete_edges :: "igraph_t \<Rightarrow> igraph_es_t \<Rightarrow> int \<times> igraph_t"
  igraph_vector_init :: "nat \<Rightarrow> int"
  igraph_degree :: "igraph_t \<Rightarrow> igraph_vs_t \<Rightarrow> int \<Rightarrow> bool \<Rightarrow> int \<times> int list"
  igraph_disjoint_union :: "igraph_t \<Rightarrow> igraph_t \<Rightarrow> int \<times> igraph_t"
  igraph_disjoint_union_many :: "igraph_t list \<Rightarrow> int \<times> igraph_t"
  igraph_union :: "igraph_t \<Rightarrow> igraph_t \<Rightarrow> int \<times> igraph_t"
  igraph_union_many :: "igraph_t list \<Rightarrow> int \<times> igraph_t"
  igraph_intersection :: "igraph_t \<Rightarrow> igraph_t \<Rightarrow> int \<times> igraph_t"
  igraph_intersection_many :: "igraph_t list \<Rightarrow> int \<times> igraph_t"
  igraph_bfs :: "igraph_t \<Rightarrow> int \<Rightarrow> int \<Rightarrow> int \<times> int list \<times> int list \<times> int list"
  tp_alloc :: bool
  call_object :: "pyobj \<Rightarrow> pyobj option"

subsection \<open>Argument parsing of the host API\<close>

text \<open>
  \<^verbatim>\<open>PyArg_ParseTuple(args, "l", &n)\<close> takes one integer that fits a C \<^verbatim>\<open>long\<close>,
  and \<^verbatim>\<open>"i"\<close> one that fits a C \<^verbatim>\<open>int\<close>; a larger integer is an
  \<^verbatim>\<open>OverflowError\<close>, any other argument list a \<^verbatim>\<open>TypeError\<close>. Only positional
  arguments are modelled. The platform is LP64 and little-endian: \<^verbatim>\<open>int\<close> is 32 bits
  wide and \<^verbatim>\<open>long\<close> 64.
\<close>

definition LONG_MIN :: int where "LONG_MIN = - (2 ^ 63)"
definition LONG_MAX :: int where "LONG_MAX = 2 ^ 63 - 1"
definition INT_MIN :: int where "INT_MIN = - (2 ^ 31)"
definition INT_MAX :: int where "INT_MAX = 2 ^ 31 - 1"

definition as_c_integer :: "int \<Rightarrow> int \<Rightarrow> pyobj \<Rightarrow> pyexc + int" where
  "as_c_integer lo hi ob =
     (case ob of
        PyInt i \<Rightarrow> if lo \<le> i \<and> i \<le> hi then Inr i
                   else Inl (OverflowError ''integer too large to convert'')
      | PyBool b \<Rightarrow> Inr (if b then 1 else 0)
      | _ \<Rightarrow> Inl (TypeError ''an integer is required''))"

definition PyArg_ParseTuple_l :: "pyobj list \<Rightarrow> pyexc + int" where
  "PyArg_ParseTuple_l args =
     (case args of
        [ob] \<Rightarrow> as_c_integer LONG_MIN LONG_MAX ob
      | _ \<Rightarrow> Inl (TypeError ''function takes exactly 1 argument''))"

definition PyArg_ParseTuple_O :: "pyobj list \<Rightarrow> pyexc + pyobj" where
  "PyArg_ParseTuple_O args =
     (case args of
        [ob] \<Rightarrow> Inr ob
      | _ \<Rightarrow> Inl (TypeError ''function takes exactly 1 argument''))"


subsection \<open>Creation, clearing, traversal, deallocation\<close>

definition igraphmodule_Graph_init_internal ::
  "igraphmodule_GraphObject \<Rightarrow> igraphmodule_GraphObject" where
  "igraphmodule_Graph_init_internal self =
     self\<lparr>vseq := None, eseq := None, destructor := None, weakreflist := None,
          g := (g self)\<lparr>attr := None\<rparr>\<rparr>"



text \<open>
  The loop \<^verbatim>\<open>for (i=0; i<3; i++)\<close> of the traversal, and the visit of the
  finalizer before it, stop at the first visit that returns non-zero.
\<close>

fun visit_each :: "(pyobj \<Rightarrow> int) \<Rightarrow> pyobj list \<Rightarrow> int \<times> pyobj list" where
  "visit_each visit [] = (0, [])"
| "visit_each visit (ob # obs) =
     (let vret = visit ob in
      if vret \<noteq> 0 then (vret, [ob])
      else (case visit_each visit obs of (r, seen) \<Rightarrow> (r, ob # seen)))"

definition traverse_targets :: "igraphmodule_GraphObject \<Rightarrow> pyobj list" where
  "traverse_targets self =
     (case destructor self of None \<Rightarrow> [] | Some d \<Rightarrow> [d])
     @ (case attr (g self) of None \<Rightarrow> [] | Some a \<Rightarrow> attr_slots a)"

definition igraphmodule_Graph_traverse ::
  "igraphmodule_GraphObject \<Rightarrow> (pyobj \<Rightarrow> int) \<Rightarrow> int \<times> pyobj list" where
  "igraphmodule_Graph_traverse self visit = visit_each visit (traverse_targets self)"


subsection \<open>Structural mutation\<close>

definition igraphmodule_Graph_add_vertices ::
  "externals \<Rightarrow> igraphmodule_GraphObject \<Rightarrow> pyobj list \<Rightarrow> pyany outcome" where
  "igraphmodule_Graph_add_vertices E self args =
     (case PyArg_ParseTuple_l args of
        Inl e \<Rightarrow> (Inl e, self, [])
      | Inr nv \<Rightarrow>
          if nv < 0 then
            (Inl (AssertionError ''Number of vertices to be added can't be negative.''),
             self, [])
          else
            (case igraph_add_vertices E (g self) nv of (rc, g') \<Rightarrow>
               if rc \<noteq> 0 then
                 (Inl (EngineError rc), self\<lparr>g := g'\<rparr>,
                  [Engine ''igraph_add_vertices'', HandleError])
               else
                 (Inr (Graph (self\<lparr>g := g'\<rparr>)), self\<lparr>g := g'\<rparr>,
                  [Engine ''igraph_add_vertices''])))"

subsection \<open>The conversion layer and the error bridge\<close>

text \<open>
  Modelled from the spec: \<^verbatim>\<open>igraphmodule_PyList_to_vector_t\<close> of convert.c, which
  is not under src/. The spec's bulk numeric marshalling converts an ordered host
  sequence of numbers to a flat buffer and rejects what is not an integer; its
  edge-pair marshalling reads a flat alternating sequence and rejects one of odd
  length. The first flag of the call sites is passed on, the spec gives it no
  meaning; the second flag asks for pairs.
\<close>

fun ints_of :: "pyobj list \<Rightarrow> int list option" where
  "ints_of [] = Some []"
| "ints_of (PyInt i # obs) = (case ints_of obs of None \<Rightarrow> None | Some is \<Rightarrow> Some (i # is))"
| "ints_of (ob # obs) = None"

definition igraphmodule_PyList_to_vector_t :: "pyobj \<Rightarrow> bool \<Rightarrow> bool \<Rightarrow> pyexc + int list" where
  "igraphmodule_PyList_to_vector_t list flag pairs =
     (case list of
        PyList obs \<Rightarrow>
          (case ints_of obs of
             None \<Rightarrow> Inl (ConversionError ''element is not an integer'')
           | Some is \<Rightarrow>
               if pairs \<and> odd (length is)
               then Inl (ConversionError ''odd number of elements in a pair list'')
               else Inr is)
      | _ \<Rightarrow> Inl (ConversionError ''not a sequence of numbers''))"

definition igraphmodule_vector_t_to_PyList :: "int list \<Rightarrow> pyobj" where
  "igraphmodule_vector_t_to_PyList v = PyList (map PyInt v)"

text \<open>
  Modelled from the spec: \<^verbatim>\<open>igraphmodule_PyObject_to_vs_t\<close> of convert.c, which is
  not under src/. The spec's selector resolution: None selects all elements, a single
  index gives a one-vertex selector and sets \<open>return_single\<close>, a collection of indices
  gives a vector selector; anything else fails with a ConversionError.
\<close>

definition igraphmodule_PyObject_to_vs_t :: "pyobj \<Rightarrow> pyexc + (igraph_vs_t \<times> bool)" where
  "igraphmodule_PyObject_to_vs_t ob =
     (case ob of
        PyNone \<Rightarrow> Inr (VS_all, False)
      | PyInt i \<Rightarrow> Inr (VS_1 i, True)
      | PyList obs \<Rightarrow>
          (case ints_of obs of
             None \<Rightarrow> Inl (ConversionError ''element is not an integer'')
           | Some is \<Rightarrow> Inr (VS_vector is, False))
      | _ \<Rightarrow> Inl (ConversionError ''not a vertex selector''))"

text \<open>
  Modelled from the spec: \<^verbatim>\<open>igraphmodule_PyIter_to_vector_ptr_t\<close> of convert.c,
  which is not under src/. The spec's collection-of-graphs marshalling takes an
  iterable of graphs; an element that is not a graph is a type mismatch.
\<close>

fun igraphmodule_PyIter_to_vector_ptr_t :: "pyany list \<Rightarrow> pyexc + igraph_t list" where
  "igraphmodule_PyIter_to_vector_ptr_t [] = Inr []"
| "igraphmodule_PyIter_to_vector_ptr_t (Graph ob # its) =
     (case igraphmodule_PyIter_to_vector_ptr_t its of
        Inl e \<Rightarrow> Inl e
      | Inr gs \<Rightarrow> Inr (g ob # gs))"
| "igraphmodule_PyIter_to_vector_ptr_t (it # its) =
     Inl (TypeError ''iterable argument must contain graphs'')"

text \<open>
  The host API's \<^verbatim>\<open>PyObject_GetIter\<close>, \<^verbatim>\<open>PyObject_TypeCheck\<close> against the Graph
  type, and \<^verbatim>\<open>PyObject_IsTrue\<close>. The Graph type has neither \<^verbatim>\<open>tp_iter\<close> nor
  \<^verbatim>\<open>tp_as_sequence\<close>, so a Graph is not iterable.
\<close>

definition PyObject_GetIter :: "pyany \<Rightarrow> pyany list option" where
  "PyObject_GetIter ob =
     (case ob of
        Sequence its \<Rightarrow> Some its
      | Plain (PyList obs) \<Rightarrow> Some (map Plain obs)
      | Plain (PyTuple obs) \<Rightarrow> Some (map Plain obs)
      | Plain (PyDict d) \<Rightarrow> Some (map (\<lambda>kv. Plain (PyStr (fst kv))) d)
      | Plain (PyStr s) \<Rightarrow> Some (map (\<lambda>c. Plain (PyStr [c])) s)
      | _ \<Rightarrow> None)"

definition PyObject_TypeCheck_Graph :: "pyany \<Rightarrow> igraphmodule_GraphObject option" where
  "PyObject_TypeCheck_Graph ob = (case ob of Graph o' \<Rightarrow> Some o' | _ \<Rightarrow> None)"

definition PyObject_IsTrue :: "pyobj \<Rightarrow> bool" where
  "PyObject_IsTrue ob =
     (case ob of
        PyNone \<Rightarrow> False
      | PyBool b \<Rightarrow> b
      | PyInt i \<Rightarrow> i \<noteq> 0
      | PyStr s \<Rightarrow> s \<noteq> []
      | PyList obs \<Rightarrow> obs \<noteq> []
      | PyTuple obs \<Rightarrow> obs \<noteq> []
      | PyDict d \<Rightarrow> d \<noteq> []
      | _ \<Rightarrow> True)"

text \<open>
  Modelled from the spec: \<^verbatim>\<open>igraphmodule_handle_igraph_error\<close> of error.c, which
  is not under src/. The spec's bridge raises a host error that carries what the
  engine reported; here that is the status code, \<open>EngineError rc\<close>, and the call
  itself is the event \<open>HandleError\<close>.
\<close>

definition IGRAPH_OUT :: int where "IGRAPH_OUT = 1"
definition IGRAPH_IN :: int where "IGRAPH_IN = 2"
definition IGRAPH_ALL :: int where "IGRAPH_ALL = 3"

subsection \<open>Deleting vertices, adding and deleting edges\<close>

definition igraphmodule_Graph_delete_vertices ::
  "externals \<Rightarrow> igraphmodule_GraphObject \<Rightarrow> pyobj list \<Rightarrow> pyany outcome" where
  "igraphmodule_Graph_delete_vertices E self args =
     (case PyArg_ParseTuple_O args of
        Inl e \<Rightarrow> (Inl e, self, [])
      | Inr list \<Rightarrow>
          (case igraphmodule_PyList_to_vector_t list True False of
             Inl e \<Rightarrow> (Inl e, self, [Convert ''igraphmodule_PyList_to_vector_t''])
           | Inr v \<Rightarrow>
               (case igraph_delete_vertices E (g self) (VS_vector v) of (rc, g') \<Rightarrow>
                  if rc \<noteq> 0 then
                    (Inl (EngineError rc), self\<lparr>g := g'\<rparr>,
                     [Convert ''igraphmodule_PyList_to_vector_t'',
                      Engine ''igraph_delete_vertices'', HandleError,
                      Destroy ''igraph_vector_destroy''])
                  else
                    (Inr (Graph (self\<lparr>g := g'\<rparr>)), self\<lparr>g := g'\<rparr>,
                     [Convert ''igraphmodule_PyList_to_vector_t'',
                      Engine ''igraph_delete_vertices'',
                      Destroy ''igraph_vector_destroy'']))))"

definition igraphmodule_Graph_add_edges ::
  "externals \<Rightarrow> igraphmodule_GraphObject \<Rightarrow> pyobj list \<Rightarrow> pyany outcome" where
  "igraphmodule_Graph_add_edges E self args =
     (case PyArg_ParseTuple_O args of
        Inl e \<Rightarrow> (Inl e, self, [])
      | Inr list \<Rightarrow>
          (case igraphmodule_PyList_to_vector_t list True True of
             Inl e \<Rightarrow>
               (Inl e, self, [Convert ''igraphmodule_PyList_to_vector_t'', Py_DECREF list])
           | Inr v \<Rightarrow>
               (case igraph_add_edges E (g self) v of (rc, g') \<Rightarrow>
                  if rc \<noteq> 0 then
                    (Inl (EngineError rc), self\<lparr>g := g'\<rparr>,
                     [Convert ''igraphmodule_PyList_to_vector_t'',
                      Engine ''igraph_add_edges'', HandleError, Py_DECREF list,
                      Destroy ''igraph_vector_destroy''])
                  else
                    (Inr (Graph (self\<lparr>g := g'\<rparr>)), self\<lparr>g := g'\<rparr>,
                     [Convert ''igraphmodule_PyList_to_vector_t'',
                      Engine ''igraph_add_edges'', Py_DECREF list,
                      Destroy ''igraph_vector_destroy'']))))"

definition PyArg_ParseTuple_O_O :: "pyobj \<Rightarrow> pyobj list \<Rightarrow> pyexc + (pyobj \<times> pyobj)" where
  "PyArg_ParseTuple_O_O dflt args =
     (case args of
        [a] \<Rightarrow> Inr (a, dflt)
      | [a, b] \<Rightarrow> Inr (a, b)
      | _ \<Rightarrow> Inl (TypeError ''function takes 1 or 2 arguments''))"

definition igraphmodule_Graph_delete_edges ::
  "externals \<Rightarrow> igraphmodule_GraphObject \<Rightarrow> pyobj list \<Rightarrow> pyany outcome" where
  "igraphmodule_Graph_delete_edges E self args =
     (case PyArg_ParseTuple_O_O (PyBool False) args of
        Inl e \<Rightarrow> (Inl e, self, [])
      | Inr (list, by_index) \<Rightarrow>
          (case igraphmodule_PyList_to_vector_t list True (\<not> PyObject_IsTrue by_index) of
             Inl e \<Rightarrow> (Inl e, self, [Convert ''igraphmodule_PyList_to_vector_t''])
           | Inr v \<Rightarrow>
               (let sel = (if PyObject_IsTrue by_index then ''igraph_es_vector''
                           else ''igraph_es_pairs'')
                in
                (case (if PyObject_IsTrue by_index then igraph_es_vector E v
                       else igraph_es_pairs E v) of (rc1, es) \<Rightarrow>
                   if rc1 \<noteq> 0 then
                     (Inl (EngineError rc1), self,
                      [Convert ''igraphmodule_PyList_to_vector_t'', Engine sel,
                       HandleError, Destroy ''igraph_vector_destroy''])
                   else
                     (case igraph_delete_edges E (g self) es of (rc, g') \<Rightarrow>
                        if rc \<noteq> 0 then
                          (Inl (EngineError rc), self\<lparr>g := g'\<rparr>,
                           [Convert ''igraphmodule_PyList_to_vector_t'', Engine sel,
                            Engine ''igraph_delete_edges'', HandleError,
                            Destroy ''igraph_es_destroy'',
                            Destroy ''igraph_vector_destroy''])
                        else
                          (Inr (Graph (self\<lparr>g := g'\<rparr>)), self\<lparr>g := g'\<rparr>,
                           [Convert ''igraphmodule_PyList_to_vector_t'', Engine sel,
                            Engine ''igraph_delete_edges'',
                            Destroy ''igraph_es_destroy'',
                            Destroy ''igraph_vector_destroy'']))))))"

subsection \<open>Degree\<close>

definition PyArg_ParseTuple_OiO ::
  "pyobj \<Rightarrow> int \<Rightarrow> pyobj \<Rightarrow> pyobj list \<Rightarrow> pyexc + (pyobj \<times> int \<times> pyobj)" where
  "PyArg_ParseTuple_OiO d1 d2 d3 args =
     (case args of
        [] \<Rightarrow> Inr (d1, d2, d3)
      | [a] \<Rightarrow> Inr (a, d2, d3)
      | [a, b] \<Rightarrow>
          (case as_c_integer INT_MIN INT_MAX b of Inl e \<Rightarrow> Inl e | Inr i \<Rightarrow> Inr (a, i, d3))
      | [a, b, c] \<Rightarrow>
          (case as_c_integer INT_MIN INT_MAX b of Inl e \<Rightarrow> Inl e | Inr i \<Rightarrow> Inr (a, i, c))
      | _ \<Rightarrow> Inl (TypeError ''function takes at most 3 arguments''))"

text \<open>
  \<^verbatim>\<open>VECTOR(result)[0]\<close> reads the first entry of the result vector; on an empty
  vector the read is out of bounds, which the model reports as \<open>NoErrorSet\<close>.
\<close>

definition igraphmodule_Graph_degree ::
  "externals \<Rightarrow> igraphmodule_GraphObject \<Rightarrow> pyobj list \<Rightarrow> pyobj outcome" where
  "igraphmodule_Graph_degree E self args =
     (case PyArg_ParseTuple_OiO PyNone IGRAPH_ALL (PyBool False) args of
        Inl e \<Rightarrow> (Inl e, self, [])
      | Inr (list, dtype, loops) \<Rightarrow>
          if dtype \<noteq> IGRAPH_ALL \<and> dtype \<noteq> IGRAPH_OUT \<and> dtype \<noteq> IGRAPH_IN then
            (Inl (ValueError ''dtype should be either ALL or IN or OUT''), self, [])
          else
            (case igraphmodule_PyObject_to_vs_t list of
               Inl e \<Rightarrow> (Inl e, self, [Convert ''igraphmodule_PyObject_to_vs_t'', HandleError])
             | Inr (vs, return_single) \<Rightarrow>
                 if igraph_vector_init E 0 \<noteq> 0 then
                   (Inl NoErrorSet, self,
                    [Convert ''igraphmodule_PyObject_to_vs_t'', Engine ''igraph_vector_init'',
                     Destroy ''igraph_vs_destroy''])
                 else
                   (case igraph_degree E (g self) vs dtype (PyObject_IsTrue loops) of
                      (rc, result) \<Rightarrow>
                        if rc \<noteq> 0 then
                          (Inl (EngineError rc), self,
                           [Convert ''igraphmodule_PyObject_to_vs_t'',
                            Engine ''igraph_vector_init'', Engine ''igraph_degree'',
                            HandleError, Destroy ''igraph_vs_destroy'',
                            Destroy ''igraph_vector_destroy''])
                        else
                          ((if \<not> return_single
                            then Inr (igraphmodule_vector_t_to_PyList result)
                            else (case result of
                                    [] \<Rightarrow> Inl NoErrorSet
                                  | d # ds \<Rightarrow> Inr (PyInt d))),
                           self,
                           [Convert ''igraphmodule_PyObject_to_vs_t'',
                            Engine ''igraph_vector_init'', Engine ''igraph_degree'',
                            Convert (if \<not> return_single
                                     then ''igraphmodule_vector_t_to_PyList''
                                     else ''PyInt_FromLong''),
                            Destroy ''igraph_vector_destroy'',
                            Destroy ''igraph_vs_destroy'']))))"

subsection \<open>Operators on graphs\<close>

text \<open>
  \<^verbatim>\<open>tp_alloc\<close> returns zero-filled memory; \<^verbatim>\<open>igraphmodule_Graph_init_internal\<close>
  then sets the pointers and \<^verbatim>\<open>result->g = g\<close> stores the engine's graph, with the
  attribute pointer the engine left in it.
\<close>

definition zeroed :: igraphmodule_GraphObject where
  "zeroed = \<lparr>g = \<lparr>n = 0, directed = False, edges = [], attr = None\<rparr>,
             destructor = None, vseq = None, eseq = None, weakreflist = None\<rparr>"

definition new_graph_object :: "externals \<Rightarrow> igraph_t \<Rightarrow> pyexc + pyany" where
  "new_graph_object E gnew =
     (if tp_alloc E
      then Inr (Graph ((igraphmodule_Graph_init_internal zeroed)\<lparr>g := gnew\<rparr>))
      else Inl (MemoryError ''out of memory''))"

text \<open>
  The three operators \<^verbatim>\<open>igraphmodule_Graph_disjoint_union\<close>, \<^verbatim>\<open>_union\<close> and
  \<^verbatim>\<open>_intersection\<close> have the same body and differ in the two engine functions they
  call; \<open>operator_body\<close> is that body, with the engine functions and their names as
  arguments.
\<close>

definition operator_body ::
  "externals \<Rightarrow> string \<Rightarrow> (igraph_t list \<Rightarrow> int \<times> igraph_t) \<Rightarrow>
   string \<Rightarrow> (igraph_t \<Rightarrow> igraph_t \<Rightarrow> int \<times> igraph_t) \<Rightarrow>
   igraphmodule_GraphObject \<Rightarrow> pyany \<Rightarrow> pyany outcome" where
  "operator_body E many_name many two_name two self other =
     (case PyObject_GetIter other of
        Some it \<Rightarrow>
          (case igraphmodule_PyIter_to_vector_ptr_t it of
             Inl e \<Rightarrow>
               (Inl e, self,
                [Convert ''igraphmodule_PyIter_to_vector_ptr_t'', Py_DECREF (PyOpaque ''it'')])
           | Inr gs \<Rightarrow>
               (case many gs of (rc, gnew) \<Rightarrow>
                  if rc \<noteq> 0 then
                    (Inl (EngineError rc), self,
                     [Convert ''igraphmodule_PyIter_to_vector_ptr_t'',
                      Py_DECREF (PyOpaque ''it''), Engine many_name,
                      Destroy ''igraph_vector_ptr_destroy'', HandleError])
                  else
                    (new_graph_object E gnew, self,
                     [Convert ''igraphmodule_PyIter_to_vector_ptr_t'',
                      Py_DECREF (PyOpaque ''it''), Engine many_name,
                      Destroy ''igraph_vector_ptr_destroy'', TpAlloc])))
      | None \<Rightarrow>
          (case PyObject_TypeCheck_Graph other of
             None \<Rightarrow> (Inr (Plain PyNotImplemented), self, [PyErr_Clear])
           | Some o' \<Rightarrow>
               (case two (g self) (g o') of (rc, gnew) \<Rightarrow>
                  if rc \<noteq> 0 then
                    (Inl (EngineError rc), self, [PyErr_Clear, Engine two_name, HandleError])
                  else
                    (new_graph_object E gnew, self,
                     [PyErr_Clear, Engine two_name, TpAlloc]))))"

definition igraphmodule_Graph_disjoint_union ::
  "externals \<Rightarrow> igraphmodule_GraphObject \<Rightarrow> pyany \<Rightarrow> pyany outcome" where
  "igraphmodule_Graph_disjoint_union E =
     operator_body E ''igraph_disjoint_union_many'' (igraph_disjoint_union_many E)
       ''igraph_disjoint_union'' (igraph_disjoint_union E)"

definition igraphmodule_Graph_union ::
  "externals \<Rightarrow> igraphmodule_GraphObject \<Rightarrow> pyany \<Rightarrow> pyany outcome" where
  "igraphmodule_Graph_union E =
     operator_body E ''igraph_union_many'' (igraph_union_many E)
       ''igraph_union'' (igraph_union E)"

definition igraphmodule_Graph_intersection ::
  "externals \<Rightarrow> igraphmodule_GraphObject \<Rightarrow> pyany \<Rightarrow> pyany outcome" where
  "igraphmodule_Graph_intersection E =
     operator_body E ''igraph_intersection_many'' (igraph_intersection_many E)
       ''igraph_intersection'' (igraph_intersection E)"

subsection \<open>Breadth-first search\<close>

definition PyArg_ParseTuple_i_i :: "int \<Rightarrow> pyobj list \<Rightarrow> pyexc + (int \<times> int)" where
  "PyArg_ParseTuple_i_i dflt args =
     (case args of
        [a] \<Rightarrow> (case as_c_integer INT_MIN INT_MAX a of Inl e \<Rightarrow> Inl e | Inr i \<Rightarrow> Inr (i, dflt))
      | [a, b] \<Rightarrow>
          (case as_c_integer INT_MIN INT_MAX a of
             Inl e \<Rightarrow> Inl e
           | Inr i \<Rightarrow>
               (case as_c_integer INT_MIN INT_MAX b of Inl e \<Rightarrow> Inl e | Inr j \<Rightarrow> Inr (i, j)))
      | _ \<Rightarrow> Inl (TypeError ''function takes 1 or 2 arguments''))"

text \<open>
  The local \<^verbatim>\<open>vid\<close> is declared \<^verbatim>\<open>long\<close> and is not initialised, and the format
  \<^verbatim>\<open>"i"\<close> stores a C \<^verbatim>\<open>int\<close> through its address. The store writes the four low
  bytes of the eight; the four high bytes keep what the stack slot held before the
  call. \<open>store_int_in_long old i\<close> is the value of the \<^verbatim>\<open>long\<close> afterwards, \<open>old\<close>
  being its value before: the high half of \<open>old\<close> over the low 32 bits of \<open>i\<close>.
  \<^verbatim>\<open>mode\<close> is an enum, as wide as \<^verbatim>\<open>int\<close>, and is initialised.
\<close>

definition store_int_in_long :: "int \<Rightarrow> int \<Rightarrow> int" where
  "store_int_in_long old i = (old div 2 ^ 32) * 2 ^ 32 + i mod 2 ^ 32"

text \<open>
  A failing \<^verbatim>\<open>igraph_vector_init\<close> sets a MemoryError and the function goes on: the
  model records the \<^verbatim>\<open>PyErr_SetString\<close> in the list of calls. The argument \<open>vid0\<close>
  is what the stack slot of \<^verbatim>\<open>vid\<close> holds on entry.
\<close>

definition init_or_complain :: "externals \<Rightarrow> nat \<Rightarrow> event list" where
  "init_or_complain E sz =
     Engine ''igraph_vector_init'' #
     (if igraph_vector_init E sz \<noteq> 0
      then [PyErr_SetString (MemoryError ''not enough memory'')] else [])"

definition igraphmodule_Graph_bfs ::
  "externals \<Rightarrow> int \<Rightarrow> igraphmodule_GraphObject \<Rightarrow> pyobj list \<Rightarrow> pyobj outcome" where
  "igraphmodule_Graph_bfs E vid0 self args =
     (case PyArg_ParseTuple_i_i IGRAPH_OUT args of
        Inl e \<Rightarrow> (Inl e, self, [])
      | Inr (parsed, mode) \<Rightarrow>
          (let vid = store_int_in_long vid0 parsed in
           if vid < 0 \<or> vid > igraph_vcount (g self) then
             (Inl (ValueError ''invalid vertex id''), self, [])
           else
             (let inits = init_or_complain E (n (g self)) @ init_or_complain E (n (g self))
                          @ init_or_complain E (n (g self))
              in
              (case igraph_bfs E (g self) vid mode of (rc, vids, layers, parents) \<Rightarrow>
                 if rc \<noteq> 0 then
                   (Inl (EngineError rc), self, inits @ [Engine ''igraph_bfs'', HandleError])
                 else
                   (Inr (PyTuple [igraphmodule_vector_t_to_PyList vids,
                                  igraphmodule_vector_t_to_PyList layers,
                                  igraphmodule_vector_t_to_PyList parents]),
                    self,
                    inits @ [Engine ''igraph_bfs'',
                             Convert ''igraphmodule_vector_t_to_PyList'',
                             Convert ''igraphmodule_vector_t_to_PyList'',
                             Convert ''igraphmodule_vector_t_to_PyList'',
                             Destroy ''igraph_vector_destroy'',
                             Destroy ''igraph_vector_destroy'',
                             Destroy ''igraph_vector_destroy''])))))"

section \<open>A reference engine\<close>

text \<open>
  The engine and the attribute handler it calls back into are not part of
  \<^verbatim>\<open>graphobject.c\<close>. The definitions of this section give the engine functions that
  the structural properties below depend on, from what the spec says of them. The
  properties that do not depend on the engine's behaviour are proved for every value of
  \<open>externals\<close>.
\<close>

definition IGRAPH_EINVAL :: int where "IGRAPH_EINVAL = 4"
definition IGRAPH_EINVEVECTOR :: int where "IGRAPH_EINVEVECTOR = 6"
definition IGRAPH_EINVVID :: int where "IGRAPH_EINVVID = 7"
definition IGRAPH_UNIMPLEMENTED :: int where "IGRAPH_UNIMPLEMENTED = 12"

definition valid_vid :: "igraph_t \<Rightarrow> int \<Rightarrow> bool" where
  "valid_vid gr v = (0 \<le> v \<and> v < igraph_vcount gr)"

definition valid_eid :: "igraph_t \<Rightarrow> int \<Rightarrow> bool" where
  "valid_eid gr i = (0 \<le> i \<and> i < igraph_ecount gr)"

text \<open>
  Modelled from the spec: the attribute handler's resizing of the vertex-scope and
  edge-scope arrays (not under src/). On an addition of \<open>k\<close> elements every existing
  array of the scope is extended by \<open>k\<close> default (None) entries; on a deletion the
  values of the surviving elements are kept, in the engine's new numbering.
\<close>

definition extend_arrays :: "nat \<Rightarrow> pydict \<Rightarrow> pydict" where
  "extend_arrays k d =
     map (\<lambda>kv. (fst kv, (case snd kv of
                            PyList xs \<Rightarrow> PyList (xs @ replicate k PyNone)
                          | ob \<Rightarrow> ob))) d"

definition keep_by :: "('k \<Rightarrow> bool) \<Rightarrow> 'k list \<Rightarrow> 'a list \<Rightarrow> 'a list" where
  "keep_by P ks xs = map snd (filter (\<lambda>kx. P (fst kx)) (zip ks xs))"

definition compact_arrays :: "('k \<Rightarrow> bool) \<Rightarrow> 'k list \<Rightarrow> pydict \<Rightarrow> pydict" where
  "compact_arrays P ks d =
     map (\<lambda>kv. (fst kv, (case snd kv of
                            PyList xs \<Rightarrow> PyList (keep_by P ks xs)
                          | ob \<Rightarrow> ob))) d"

definition on_vertex_attrs :: "(pydict \<Rightarrow> pydict) \<Rightarrow> attrhash option \<Rightarrow> attrhash option" where
  "on_vertex_attrs f a = map_option (\<lambda>h. h\<lparr>attr_vertex := f (attr_vertex h)\<rparr>) a"

definition on_edge_attrs :: "(pydict \<Rightarrow> pydict) \<Rightarrow> attrhash option \<Rightarrow> attrhash option" where
  "on_edge_attrs f a = map_option (\<lambda>h. h\<lparr>attr_edge := f (attr_edge h)\<rparr>) a"

definition empty_attrs :: attrhash where
  "empty_attrs = \<lparr>attr_graph = [], attr_vertex = [], attr_edge = []\<rparr>"

text \<open>
  Modelled from the spec: the engine's \<^verbatim>\<open>igraph_add_vertices\<close> (external library,
  not under src/): the vertex count grows by the number given and the vertex-scope
  arrays follow.
\<close>

definition ref_add_vertices :: "igraph_t \<Rightarrow> int \<Rightarrow> int \<times> igraph_t" where
  "ref_add_vertices gr nv =
     (if nv < 0 then (IGRAPH_EINVAL, gr)
      else (0, gr\<lparr>n := n gr + nat nv,
                  attr := on_vertex_attrs (extend_arrays (nat nv)) (attr gr)\<rparr>))"

text \<open>
  Modelled from the spec: the engine's \<^verbatim>\<open>igraph_delete_vertices\<close> (external library,
  not under src/). An index outside the graph is an error that leaves the graph as it
  was. Otherwise the selected vertices and the edges at them go, the survivors are
  renumbered in order, and the arrays of both scopes are compacted the same way.
\<close>

definition vs_as_vector :: "igraph_t \<Rightarrow> igraph_vs_t \<Rightarrow> int list" where
  "vs_as_vector gr vs =
     (case vs of
        VS_all \<Rightarrow> map int [0..<n gr]
      | VS_1 v \<Rightarrow> [v]
      | VS_vector v \<Rightarrow> v)"

definition ref_delete_vertices :: "igraph_t \<Rightarrow> igraph_vs_t \<Rightarrow> int \<times> igraph_t" where
  "ref_delete_vertices gr vs =
     (let vids = vs_as_vector gr vs in
      if \<not> list_all (valid_vid gr) vids then (IGRAPH_EINVVID, gr)
      else
        (let survives = (\<lambda>v. int v \<notin> set vids);
             new_id = (\<lambda>v. length (filter survives [0..<v]));
             stays = (\<lambda>e. survives (fst e) \<and> survives (snd e))
         in (0, gr\<lparr>n := length (filter survives [0..<n gr]),
                    edges := map (\<lambda>e. (new_id (fst e), new_id (snd e)))
                                 (filter stays (edges gr)),
                    attr := on_edge_attrs (compact_arrays stays (edges gr))
                              (on_vertex_attrs (compact_arrays survives [0..<n gr])
                                 (attr gr))\<rparr>)))"

text \<open>
  Modelled from the spec: the engine's \<^verbatim>\<open>igraph_add_edges\<close> (external library, not
  under src/), on a flat alternating vector of endpoints.
\<close>

fun pairs_of :: "'a list \<Rightarrow> ('a \<times> 'a) list" where
  "pairs_of (a # b # rest) = (a, b) # pairs_of rest"
| "pairs_of rest = []"

definition ref_add_edges :: "igraph_t \<Rightarrow> int list \<Rightarrow> int \<times> igraph_t" where
  "ref_add_edges gr v =
     (if odd (length v) then (IGRAPH_EINVEVECTOR, gr)
      else if \<not> list_all (valid_vid gr) v then (IGRAPH_EINVVID, gr)
      else (0, gr\<lparr>edges := edges gr @ pairs_of (map nat v),
                  attr := on_edge_attrs (extend_arrays (length (pairs_of (map nat v))))
                            (attr gr)\<rparr>))"

text \<open>
  Modelled from the spec: the engine's edge selectors and \<^verbatim>\<open>igraph_delete_edges\<close>
  (external library, not under src/). A selector is a vector of edge indices or a flat
  vector of endpoint pairs, each pair naming the first edge between its endpoints. An
  index or a pair that names no edge is an error that leaves the graph as it was.
\<close>

definition ref_es_vector :: "int list \<Rightarrow> int \<times> igraph_es_t" where
  "ref_es_vector v = (0, ES_vector v)"

definition ref_es_pairs :: "int list \<Rightarrow> int \<times> igraph_es_t" where
  "ref_es_pairs v = (0, ES_pairs v)"

definition joins :: "igraph_t \<Rightarrow> (nat \<times> nat) \<Rightarrow> (nat \<times> nat) \<Rightarrow> bool" where
  "joins gr p e = (e = p \<or> (\<not> directed gr \<and> e = (snd p, fst p)))"

definition find_eid :: "igraph_t \<Rightarrow> (nat \<times> nat) \<Rightarrow> nat option" where
  "find_eid gr p =
     (case filter (\<lambda>i. joins gr p (edges gr ! i)) [0..<length (edges gr)] of
        [] \<Rightarrow> None
      | i # rest \<Rightarrow> Some i)"

definition es_as_vector :: "igraph_t \<Rightarrow> igraph_es_t \<Rightarrow> int list option" where
  "es_as_vector gr es =
     (case es of
        ES_vector ids \<Rightarrow> if list_all (valid_eid gr) ids then Some ids else None
      | ES_pairs v \<Rightarrow>
          if odd (length v) \<or> \<not> list_all (valid_vid gr) v then None
          else map_option (map int) (those (map (find_eid gr) (pairs_of (map nat v)))))"

definition ref_delete_edges :: "igraph_t \<Rightarrow> igraph_es_t \<Rightarrow> int \<times> igraph_t" where
  "ref_delete_edges gr es =
     (case es_as_vector gr es of
        None \<Rightarrow> (IGRAPH_EINVAL, gr)
      | Some ids \<Rightarrow>
          (let stays = (\<lambda>i. int i \<notin> set ids) in
           (0, gr\<lparr>edges := keep_by stays [0..<length (edges gr)] (edges gr),
                  attr := on_edge_attrs (compact_arrays stays [0..<length (edges gr)])
                            (attr gr)\<rparr>)))"

text \<open>
  Modelled from the spec: the engine's \<^verbatim>\<open>igraph_degree\<close> (external library, not under
  src/): one number per selected vertex, in the selector's order; an index outside the
  graph is an error. The number is the count of edge ends at the vertex in the asked
  direction, without self-loops unless they are asked for.
\<close>

definition degree_of :: "igraph_t \<Rightarrow> int \<Rightarrow> bool \<Rightarrow> nat \<Rightarrow> int" where
  "degree_of gr mode loops v =
     (let es = filter (\<lambda>e. loops \<or> fst e \<noteq> snd e) (edges gr);
          out_d = int (length (filter (\<lambda>e. fst e = v) es));
          in_d = int (length (filter (\<lambda>e. snd e = v) es))
      in if \<not> directed gr \<or> mode = IGRAPH_ALL then out_d + in_d
         else if mode = IGRAPH_OUT then out_d else in_d)"

definition ref_degree :: "igraph_t \<Rightarrow> igraph_vs_t \<Rightarrow> int \<Rightarrow> bool \<Rightarrow> int \<times> int list" where
  "ref_degree gr vs mode loops =
     (let vids = vs_as_vector gr vs in
      if \<not> list_all (valid_vid gr) vids then (IGRAPH_EINVVID, [])
      else (0, map (\<lambda>v. degree_of gr mode loops (nat v)) vids))"

text \<open>
  Modelled from the spec: the engine's \<^verbatim>\<open>igraph_disjoint_union\<close> and
  \<^verbatim>\<open>igraph_disjoint_union_many\<close> (external library, not under src/): the vertices and
  the edges of the operands side by side, the later operand's vertices renumbered after
  the earlier one's, and a fresh, empty attribute store (this operator copies no
  attribute).
\<close>

definition ref_disjoint_union :: "igraph_t \<Rightarrow> igraph_t \<Rightarrow> int \<times> igraph_t" where
  "ref_disjoint_union g1 g2 =
     (0, \<lparr>n = n g1 + n g2, directed = directed g1,
          edges = edges g1 @ map (\<lambda>e. (fst e + n g1, snd e + n g1)) (edges g2),
          attr = Some empty_attrs\<rparr>)"

definition ref_disjoint_union_many :: "igraph_t list \<Rightarrow> int \<times> igraph_t" where
  "ref_disjoint_union_many gs =
     (0, foldl (\<lambda>acc gr. snd (ref_disjoint_union acc gr))
           \<lparr>n = 0, directed = (case gs of [] \<Rightarrow> True | gr # rest \<Rightarrow> directed gr),
            edges = [], attr = Some empty_attrs\<rparr> gs)"

text \<open>
  The functions that no property below depends on report that they are not
  implemented, the host allocator succeeds, and a called finalizer returns None.
\<close>

definition ref_engine :: externals where
  "ref_engine =
     \<lparr>igraph_add_vertices = ref_add_vertices,
      igraph_delete_vertices = ref_delete_vertices,
      igraph_add_edges = ref_add_edges,
      igraph_es_vector = ref_es_vector,
      igraph_es_pairs = ref_es_pairs,
      igraph_delete_edges = ref_delete_edges,
      igraph_vector_init = (\<lambda>sz. 0),
      igraph_degree = ref_degree,
      igraph_disjoint_union = ref_disjoint_union,
      igraph_disjoint_union_many = ref_disjoint_union_many,
      igraph_union = (\<lambda>g1 g2. (IGRAPH_UNIMPLEMENTED, g1)),
      igraph_union_many = (\<lambda>gs. (IGRAPH_UNIMPLEMENTED, \<lparr>n = 0, directed = True, edges = [], attr = None\<rparr>)),
      igraph_intersection = (\<lambda>g1 g2. (IGRAPH_UNIMPLEMENTED, g1)),
      igraph_intersection_many = (\<lambda>gs. (IGRAPH_UNIMPLEMENTED, \<lparr>n = 0, directed = True, edges = [], attr = None\<rparr>)),
      igraph_bfs = (\<lambda>gr vid mode. (IGRAPH_UNIMPLEMENTED, [], [], [])),
      tp_alloc = True,
      call_object = (\<lambda>f. Some PyNone)\<rparr>"

section \<open>Properties\<close>

subsection \<open>Attribute arrays and the vertex and edge counts\<close>

definition arrays_of_length :: "nat \<Rightarrow> pydict \<Rightarrow> bool" where
  "arrays_of_length k d =
     list_all (\<lambda>kv. (case snd kv of PyList xs \<Rightarrow> length xs = k | ob \<Rightarrow> False)) d"

definition attrs_consistent :: "igraph_t \<Rightarrow> bool" where
  "attrs_consistent gr =
     (case attr gr of
        None \<Rightarrow> True
      | Some a \<Rightarrow> arrays_of_length (n gr) (attr_vertex a)
                  \<and> arrays_of_length (length (edges gr)) (attr_edge a))"

text \<open>The four structural mutations, by the name the method table gives them.\<close>

datatype mutation = Add_vertices | Delete_vertices | Add_edges | Delete_edges

fun mutate ::
  "mutation \<Rightarrow> externals \<Rightarrow> igraphmodule_GraphObject \<Rightarrow> pyobj list \<Rightarrow> pyany outcome" where
  "mutate Add_vertices = igraphmodule_Graph_add_vertices"
| "mutate Delete_vertices = igraphmodule_Graph_delete_vertices"
| "mutate Add_edges = igraphmodule_Graph_add_edges"
| "mutate Delete_edges = igraphmodule_Graph_delete_edges"

definition handle_after :: "'a outcome \<Rightarrow> igraphmodule_GraphObject" where
  "handle_after out = fst (snd out)"

definition calls_of :: "'a outcome \<Rightarrow> event list" where
  "calls_of out = snd (snd out)"

subsection \<open>Example handles\<close>

definition five :: igraph_t where
  "five = \<lparr>n = 5, directed = False, edges = [(0, 1), (1, 2), (2, 0)],
           attr = Some \<lparr>attr_graph = [(''name'', PyStr ''G'')],
                        attr_vertex = [(''color'', PyList [PyInt 1, PyInt 2, PyInt 3,
                                                           PyInt 4, PyInt 5])],
                        attr_edge = [(''weight'', PyList [PyInt 7, PyInt 8, PyInt 9])]\<rparr>\<rparr>"

definition handle5 :: igraphmodule_GraphObject where
  "handle5 = \<lparr>g = five, destructor = Some (PyFunction ''on_free''),
              vseq = Some (PyOpaque ''VertexSeq''), eseq = None,
              weakreflist = Some (PyOpaque ''weakref'')\<rparr>"

definition pair2 :: igraph_t where
  "pair2 = \<lparr>n = 2, directed = False, edges = [(0, 1)],
            attr = Some \<lparr>attr_graph = [], attr_vertex = [(''label'', PyList [PyStr ''a'', PyStr ''b''])],
                         attr_edge = []\<rparr>\<rparr>"

definition handle2 :: igraphmodule_GraphObject where
  "handle2 = \<lparr>g = pair2, destructor = None, vseq = None, eseq = None, weakreflist = None\<rparr>"

definition arrow2 :: igraph_t where
  "arrow2 = \<lparr>n = 2, directed = True, edges = [(0, 1)], attr = Some empty_attrs\<rparr>"

definition handle_arrow :: igraphmodule_GraphObject where
  "handle_arrow = \<lparr>g = arrow2, destructor = None, vseq = None, eseq = None,
                   weakreflist = None\<rparr>"

text \<open>A visit callback that always returns 0, as the collector's does.\<close>

definition visit_ok :: "pyobj \<Rightarrow> int" where
  "visit_ok ob = 0"

text \<open>A visit callback that returns 7 on the graph-scope dictionary of \<open>five\<close>.\<close>

definition visit_stop :: "pyobj \<Rightarrow> int" where
  "visit_stop ob = (if ob = PyDict [(''name'', PyStr ''G'')] then 7 else 0)"

text \<open>
  An engine whose \<^verbatim>\<open>igraph_disjoint_union_many\<close> refuses a list that mixes directed
  and undirected graphs, with the status \<^verbatim>\<open>IGRAPH_EINVAL\<close>.
\<close>

definition strict_engine :: externals where
  "strict_engine =
     ref_engine\<lparr>igraph_disjoint_union_many :=
                  (\<lambda>gs. if list_ex directed gs \<and> list_ex (\<lambda>gr. \<not> directed gr) gs
                        then (IGRAPH_EINVAL,
                              \<lparr>n = 0, directed = True, edges = [], attr = None\<rparr>)
                        else ref_disjoint_union_many gs)\<rparr>"

section \<open>Theorems\<close>

subsection \<open>Traversal for the cyclic collector\<close>

lemma visit_each_all: "\<forall>ob \<in> set obs. visit ob = 0 \<Longrightarrow> visit_each visit obs = (0, obs)"
  by (induction obs) (auto simp: Let_def)

lemma visit_each_first_nonzero:
  "visit b \<noteq> 0 \<Longrightarrow> \<forall>ob \<in> set pre. visit ob = 0 \<Longrightarrow>
   visit_each visit (pre @ b # rest) = (visit b, pre @ [b])"
  by (induction pre) (auto simp: Let_def)

lemma visit_each_stops:
  "visit_each visit obs =
     (case dropWhile (\<lambda>ob. visit ob = 0) obs of
        [] \<Rightarrow> (0, obs)
      | ob # rest \<Rightarrow> (visit ob, takeWhile (\<lambda>ob. visit ob = 0) obs @ [ob]))"
proof (cases "dropWhile (\<lambda>ob. visit ob = 0) obs")
  case Nil
  have "\<forall>ob \<in> set obs. visit ob = 0"
    using Nil dropWhile_eq_Nil_conv[of "\<lambda>ob. visit ob = 0" obs] by blast
  then have "visit_each visit obs = (0, obs)"
    by (rule visit_each_all)
  then show ?thesis
    by (simp only: Nil list.case)
next
  case (Cons b rest)
  have nz: "visit b \<noteq> 0"
    using Cons hd_dropWhile[of "\<lambda>ob. visit ob = 0" obs] by auto
  have parts: "takeWhile (\<lambda>ob. visit ob = 0) obs @ b # rest = obs"
    using Cons takeWhile_dropWhile_id[of "\<lambda>ob. visit ob = 0" obs] by simp
  have pre: "\<forall>ob \<in> set (takeWhile (\<lambda>ob. visit ob = 0) obs). visit ob = 0"
    by (auto dest: set_takeWhileD)
  have "visit_each visit (takeWhile (\<lambda>ob. visit ob = 0) obs @ b # rest)
          = (visit b, takeWhile (\<lambda>ob. visit ob = 0) obs @ [b])"
    by (rule visit_each_first_nonzero[OF nz pre])
  then have "visit_each visit obs = (visit b, takeWhile (\<lambda>ob. visit ob = 0) obs @ [b])"
    by (simp only: parts)
  then show ?thesis
    by (simp only: Cons list.case)
qed

text \<open>
  C2, as the code has it. The objects the traversal may visit are, in this order, the
  registered finalizer callback (when one is set) and then the three attribute
  dictionaries of the handle as whole objects: the graph-scope, the vertex-scope and
  the edge-scope dictionary (when the attribute store exists). It visits them in that
  order up to and including the first one whose visit returns non-zero, stops there and
  returns that value; when every visit returns 0 it visits them all and returns 0. No
  attribute value or array is passed to the callback by itself, and neither cached
  view is.
\<close>

theorem traverse_visits:
  "igraphmodule_Graph_traverse self visit =
     (let targets =
            (case destructor self of None \<Rightarrow> [] | Some d \<Rightarrow> [d])
            @ (case attr (g self) of
                 None \<Rightarrow> []
               | Some a \<Rightarrow> [PyDict (attr_graph a), PyDict (attr_vertex a),
                             PyDict (attr_edge a)])
      in case dropWhile (\<lambda>ob. visit ob = 0) targets of
           [] \<Rightarrow> (0, targets)
         | ob # rest \<Rightarrow> (visit ob, takeWhile (\<lambda>ob. visit ob = 0) targets @ [ob]))"
proof -
  have t: "traverse_targets self =
      (case destructor self of None \<Rightarrow> [] | Some d \<Rightarrow> [d])
      @ (case attr (g self) of
           None \<Rightarrow> []
         | Some a \<Rightarrow> [PyDict (attr_graph a), PyDict (attr_vertex a), PyDict (attr_edge a)])"
    by (simp add: traverse_targets_def attr_slots_def split: option.splits)
  show ?thesis
    unfolding igraphmodule_Graph_traverse_def Let_def t[symmetric]
    by (rule visit_each_stops)
qed

theorem traverse_visits_witness:
  "igraphmodule_Graph_traverse handle5 visit_ok =
     (0, [PyFunction ''on_free'',
          PyDict [(''name'', PyStr ''G'')],
          PyDict [(''color'', PyList [PyInt 1, PyInt 2, PyInt 3, PyInt 4, PyInt 5])],
          PyDict [(''weight'', PyList [PyInt 7, PyInt 8, PyInt 9])]])
   \<and> igraphmodule_Graph_traverse handle5 visit_stop =
     (7, [PyFunction ''on_free'', PyDict [(''name'', PyStr ''G'')]])"
  using traverse_visits[of handle5 visit_ok] traverse_visits[of handle5 visit_stop]
  by (simp add: handle5_def five_def visit_ok_def visit_stop_def)

text \<open>
  C2, as the claim states it, fails on a handle with a finalizer, the graph attribute
  \<open>name = G\<close> and one vertex attribute: the vertex-scope dictionary, which holds the
  per-vertex array, is visited, and what is visited is not the finalizer and the
  graph-scope value.
\<close>

theorem traverse_visits_vertex_dictionary:
  "PyDict [(''color'', PyList [PyInt 1, PyInt 2, PyInt 3, PyInt 4, PyInt 5])]
     \<in> set (snd (igraphmodule_Graph_traverse handle5 visit_ok))
   \<and> set (snd (igraphmodule_Graph_traverse handle5 visit_ok))
       \<noteq> {PyFunction ''on_free'', PyStr ''G''}"
  by (auto simp: igraphmodule_Graph_traverse_def traverse_targets_def attr_slots_def
        handle5_def five_def visit_ok_def)

subsection \<open>Deallocation\<close>




subsection \<open>Adding a negative number of vertices\<close>

text \<open>
  C4. For every negative integer, \<^verbatim>\<open>add_vertices\<close> raises an error, makes no call at
  all (so none into the engine, whatever the engine is) and leaves the handle as it
  was. The error is the AssertionError of the function's own check when the integer
  fits a C long, and the argument parser's OverflowError below that.
\<close>

theorem add_vertices_negative:
  "nv < 0 \<Longrightarrow>
   igraphmodule_Graph_add_vertices E self [PyInt nv] =
     (Inl (if LONG_MIN \<le> nv
           then AssertionError ''Number of vertices to be added can't be negative.''
           else OverflowError ''integer too large to convert''),
      self, [])"
  by (simp add: igraphmodule_Graph_add_vertices_def PyArg_ParseTuple_l_def
        as_c_integer_def LONG_MIN_def LONG_MAX_def)

theorem add_vertices_negative_witness:
  "(-3 :: int) < 0 \<and>
   igraphmodule_Graph_add_vertices ref_engine handle5 [PyInt (-3)] =
     (Inl (AssertionError ''Number of vertices to be added can't be negative.''),
      handle5, [])"
  using add_vertices_negative[of "-3" ref_engine handle5]
  by (simp add: LONG_MIN_def)

subsection \<open>Attribute arrays follow the vertex and edge counts\<close>

lemma length_keep_by:
  "length ks = length xs \<Longrightarrow> length (keep_by P ks xs) = length (filter P ks)"
proof -
  assume eq: "length ks = length xs"
  have "length (filter (\<lambda>kx. P (fst kx)) (zip ks xs)) = length (filter P (map fst (zip ks xs)))"
    by (simp add: filter_map comp_def)
  also have "map fst (zip ks xs) = ks" using eq by simp
  finally show ?thesis by (simp add: keep_by_def)
qed

lemma arrays_of_length_extend:
  "arrays_of_length k d \<Longrightarrow> arrays_of_length (k + j) (extend_arrays j d)"
  by (induction d) (auto simp: arrays_of_length_def extend_arrays_def split: pyobj.splits)

lemma arrays_of_length_compact:
  "arrays_of_length (length ks) d \<Longrightarrow>
   arrays_of_length (length (filter P ks)) (compact_arrays P ks d)"
  by (induction d)
     (auto simp: arrays_of_length_def compact_arrays_def length_keep_by split: pyobj.splits)

lemma ref_add_vertices_consistent:
  "attrs_consistent gr \<Longrightarrow> attrs_consistent (snd (ref_add_vertices gr nv))"
  by (auto simp: attrs_consistent_def ref_add_vertices_def on_vertex_attrs_def
        arrays_of_length_extend split: option.splits)

lemma ref_delete_vertices_consistent:
  "attrs_consistent gr \<Longrightarrow> attrs_consistent (snd (ref_delete_vertices gr vs))"
  apply (auto simp: attrs_consistent_def ref_delete_vertices_def on_vertex_attrs_def
        on_edge_attrs_def Let_def split: option.splits)
  using arrays_of_length_compact[where ks="[0..<n gr]"] apply fastforce
  using arrays_of_length_compact[where ks="edges gr"] apply fastforce
  done

lemma ref_add_edges_consistent:
  "attrs_consistent gr \<Longrightarrow> attrs_consistent (snd (ref_add_edges gr v))"
  by (auto simp: attrs_consistent_def ref_add_edges_def on_edge_attrs_def
        arrays_of_length_extend split: option.splits)

lemma ref_delete_edges_consistent:
  "attrs_consistent gr \<Longrightarrow> attrs_consistent (snd (ref_delete_edges gr es))"
  apply (auto simp: attrs_consistent_def ref_delete_edges_def on_edge_attrs_def Let_def
        length_keep_by split: option.splits)
  using arrays_of_length_compact[where ks="[0..<length (edges gr)]"] apply fastforce
  done

text \<open>
  The binding's part, for any engine: the four entry points change the handle only
  through the engine's call, so they keep the arrays in step whenever the engine's four
  functions do.
\<close>

lemma mutate_consistent:
  assumes av: "\<And>gr nv. attrs_consistent gr \<Longrightarrow> attrs_consistent (snd (igraph_add_vertices E gr nv))"
    and dv: "\<And>gr vs. attrs_consistent gr \<Longrightarrow> attrs_consistent (snd (igraph_delete_vertices E gr vs))"
    and ae: "\<And>gr v. attrs_consistent gr \<Longrightarrow> attrs_consistent (snd (igraph_add_edges E gr v))"
    and de: "\<And>gr es. attrs_consistent gr \<Longrightarrow> attrs_consistent (snd (igraph_delete_edges E gr es))"
    and inv: "attrs_consistent (g self)"
  shows "attrs_consistent (g (handle_after (mutate m E self args)))"
proof (cases m)
  case Add_vertices
  have "attrs_consistent g'" if "igraph_add_vertices E (g self) nv = (rc, g')" for nv rc g'
    using av[OF inv, of nv] that by simp
  then show ?thesis
    using inv Add_vertices
    by (auto simp: igraphmodule_Graph_add_vertices_def handle_after_def
          split: sum.splits prod.splits)
next
  case Delete_vertices
  have "attrs_consistent g'" if "igraph_delete_vertices E (g self) vs = (rc, g')" for vs rc g'
    using dv[OF inv, of vs] that by simp
  then show ?thesis
    using inv Delete_vertices
    by (auto simp: igraphmodule_Graph_delete_vertices_def handle_after_def
          split: sum.splits prod.splits)
next
  case Add_edges
  have "attrs_consistent g'" if "igraph_add_edges E (g self) v = (rc, g')" for v rc g'
    using ae[OF inv, of v] that by simp
  then show ?thesis
    using inv Add_edges
    by (auto simp: igraphmodule_Graph_add_edges_def handle_after_def
          split: sum.splits prod.splits)
next
  case Delete_edges
  have "attrs_consistent g'" if "igraph_delete_edges E (g self) es = (rc, g')" for es rc g'
    using de[OF inv, of es] that by simp
  then show ?thesis
    using inv Delete_edges
    by (auto simp: igraphmodule_Graph_delete_edges_def handle_after_def Let_def
          split: sum.splits prod.splits)
qed

text \<open>
  C1. On a handle whose vertex-scope arrays all have the length of the vertex count and
  whose edge-scope arrays all have the length of the edge count, each of
  \<^verbatim>\<open>add_vertices\<close>, \<^verbatim>\<open>delete_vertices\<close>, \<^verbatim>\<open>add_edges\<close> and \<^verbatim>\<open>delete_edges\<close>, called
  with any arguments, leaves a handle with the same property, whether the call
  succeeds or fails. The engine and its attribute handler are the reference engine.
\<close>

theorem attribute_arrays_follow_counts:
  "attrs_consistent (g self) \<Longrightarrow>
   attrs_consistent (g (handle_after (mutate m ref_engine self args)))"
  by (rule mutate_consistent)
     (simp_all add: ref_engine_def ref_add_vertices_consistent ref_delete_vertices_consistent
        ref_add_edges_consistent ref_delete_edges_consistent)

theorem attribute_arrays_follow_counts_witness:
  "attrs_consistent (g handle5)
   \<and> attrs_consistent
       (g (handle_after (mutate Delete_vertices ref_engine handle5
                           [PyList [PyInt 1, PyInt 3]])))
   \<and> n (g (handle_after (mutate Delete_vertices ref_engine handle5
                           [PyList [PyInt 1, PyInt 3]]))) = 3
   \<and> attr_vertex (the (attr (g (handle_after (mutate Delete_vertices ref_engine handle5
                           [PyList [PyInt 1, PyInt 3]])))))
       = [(''color'', PyList [PyInt 1, PyInt 3, PyInt 5])]"
proof -
  have h: "attrs_consistent (g handle5)"
    by (simp add: attrs_consistent_def arrays_of_length_def handle5_def five_def)
  have r: "ref_delete_vertices five (VS_vector [1, 3]) =
             (0, \<lparr>n = 3, directed = False, edges = [(1, 0)],
                  attr = Some \<lparr>attr_graph = [(''name'', PyStr ''G'')],
                               attr_vertex = [(''color'', PyList [PyInt 1, PyInt 3, PyInt 5])],
                               attr_edge = [(''weight'', PyList [PyInt 9])]\<rparr>\<rparr>)"
    by (simp add: ref_delete_vertices_def vs_as_vector_def valid_vid_def igraph_vcount_def
          five_def on_vertex_attrs_def on_edge_attrs_def compact_arrays_def keep_by_def
          Let_def upt_conv_Cons)
  have e: "handle_after (igraphmodule_Graph_delete_vertices ref_engine handle5
                           [PyList [PyInt 1, PyInt 3]])
             = handle5\<lparr>g := snd (ref_delete_vertices five (VS_vector [1, 3]))\<rparr>"
    by (simp add: igraphmodule_Graph_delete_vertices_def PyArg_ParseTuple_O_def
          igraphmodule_PyList_to_vector_t_def handle_after_def ref_engine_def handle5_def r)
  show ?thesis
    using attribute_arrays_follow_counts[OF h, of Delete_vertices "[PyList [PyInt 1, PyInt 3]]"]
          h
    by (simp add: e r)
qed

subsection \<open>Scalar and list selectors of degree\<close>

lemma ints_of_ints: "ints_of (map PyInt is) = Some is"
  by (induction "is") auto

text \<open>
  The binding's part, for any engine whose \<^verbatim>\<open>igraph_degree\<close> succeeds: a scalar
  selector gives the first entry of the engine's result as one integer, a list selector
  gives the whole result as a list.
\<close>

lemma degree_of_scalar:
  "igraph_vector_init E 0 = 0 \<Longrightarrow>
   igraph_degree E (g self) (VS_1 i) IGRAPH_ALL False = (0, d # ds) \<Longrightarrow>
   fst (igraphmodule_Graph_degree E self [PyInt i]) = Inr (PyInt d)"
  by (simp add: igraphmodule_Graph_degree_def PyArg_ParseTuple_OiO_def
        igraphmodule_PyObject_to_vs_t_def PyObject_IsTrue_def)

lemma degree_of_list:
  "igraph_vector_init E 0 = 0 \<Longrightarrow>
   igraph_degree E (g self) (VS_vector is) IGRAPH_ALL False = (0, ds) \<Longrightarrow>
   fst (igraphmodule_Graph_degree E self [PyList (map PyInt is)]) = Inr (PyList (map PyInt ds))"
  by (simp add: igraphmodule_Graph_degree_def PyArg_ParseTuple_OiO_def
        igraphmodule_PyObject_to_vs_t_def PyObject_IsTrue_def ints_of_ints
        igraphmodule_vector_t_to_PyList_def)

text \<open>
  C5. For a valid vertex index \<open>i\<close>, \<^verbatim>\<open>degree(i)\<close> returns a single integer and
  \<^verbatim>\<open>degree([i])\<close> returns the one-element list of that integer; for a list of valid
  indices, \<^verbatim>\<open>degree\<close> returns a list as long as the list given. The selector
  resolution and the engine's degree are the ones modelled from the spec.
\<close>

theorem degree_scalar_and_list:
  assumes "valid_vid (g self) i" and "list_all (valid_vid (g self)) is"
  shows "fst (igraphmodule_Graph_degree ref_engine self [PyInt i])
           = Inr (PyInt (degree_of (g self) IGRAPH_ALL False (nat i)))
         \<and> fst (igraphmodule_Graph_degree ref_engine self [PyList [PyInt i]])
           = Inr (PyList [PyInt (degree_of (g self) IGRAPH_ALL False (nat i))])
         \<and> (\<exists>ds. fst (igraphmodule_Graph_degree ref_engine self [PyList (map PyInt is)])
                    = Inr (PyList ds) \<and> length ds = length is)"
proof -
  let ?d = "degree_of (g self) IGRAPH_ALL False (nat i)"
  have init: "igraph_vector_init ref_engine 0 = 0"
    by (simp add: ref_engine_def)
  have one: "igraph_degree ref_engine (g self) (VS_1 i) IGRAPH_ALL False = (0, [?d])"
    using assms(1) by (simp add: ref_engine_def ref_degree_def vs_as_vector_def)
  have single: "igraph_degree ref_engine (g self) (VS_vector [i]) IGRAPH_ALL False = (0, [?d])"
    using assms(1) by (simp add: ref_engine_def ref_degree_def vs_as_vector_def)
  have many: "igraph_degree ref_engine (g self) (VS_vector is) IGRAPH_ALL False
                = (0, map (\<lambda>v. degree_of (g self) IGRAPH_ALL False (nat v)) is)"
    using assms(2) by (simp add: ref_engine_def ref_degree_def vs_as_vector_def)
  have a: "fst (igraphmodule_Graph_degree ref_engine self [PyInt i]) = Inr (PyInt ?d)"
    by (rule degree_of_scalar[OF init one])
  have b: "fst (igraphmodule_Graph_degree ref_engine self [PyList [PyInt i]])
             = Inr (PyList [PyInt ?d])"
    using degree_of_list[OF init single] by simp
  have c: "fst (igraphmodule_Graph_degree ref_engine self [PyList (map PyInt is)])
             = Inr (PyList (map PyInt (map (\<lambda>v. degree_of (g self) IGRAPH_ALL False (nat v)) is)))"
    by (rule degree_of_list[OF init many])
  show ?thesis using a b c by simp
qed

theorem degree_scalar_and_list_witness:
  "valid_vid (g handle5) 2 \<and> list_all (valid_vid (g handle5)) [0, 2, 4]
   \<and> fst (igraphmodule_Graph_degree ref_engine handle5 [PyInt 2]) = Inr (PyInt 2)
   \<and> fst (igraphmodule_Graph_degree ref_engine handle5 [PyList [PyInt 2]])
       = Inr (PyList [PyInt 2])
   \<and> (\<exists>ds. fst (igraphmodule_Graph_degree ref_engine handle5
                   [PyList (map PyInt [0, 2, 4])]) = Inr (PyList ds)
            \<and> length ds = length [0, 2, 4 :: int])"
proof -
  have v: "valid_vid (g handle5) 2" "list_all (valid_vid (g handle5)) [0, 2, 4]"
    by (simp_all add: valid_vid_def igraph_vcount_def handle5_def five_def)
  have d: "degree_of (g handle5) IGRAPH_ALL False (nat 2) = 2"
    by (simp add: degree_of_def handle5_def five_def)
  show ?thesis
    using degree_scalar_and_list[OF v] v d by simp
qed

subsection \<open>Deleting a vertex that does not exist\<close>

text \<open>
  The binding's part, for any engine: when the engine's call fails, the binding raises
  the bridged error and the handle holds exactly the graph the engine left.
\<close>

lemma delete_vertices_engine_failure:
  "igraph_delete_vertices E (g self) (VS_vector vids) = (rc, g') \<Longrightarrow> rc \<noteq> 0 \<Longrightarrow>
   igraphmodule_Graph_delete_vertices E self [PyList (map PyInt vids)] =
     (Inl (EngineError rc), self\<lparr>g := g'\<rparr>,
      [Convert ''igraphmodule_PyList_to_vector_t'', Engine ''igraph_delete_vertices'',
       HandleError, Destroy ''igraph_vector_destroy''])"
  by (simp add: igraphmodule_Graph_delete_vertices_def PyArg_ParseTuple_O_def
        igraphmodule_PyList_to_vector_t_def ints_of_ints)

text \<open>
  C6. \<^verbatim>\<open>delete_vertices\<close> with a list of integers of which at least one is not a
  vertex index of the graph (as \<open>[999]\<close> on five vertices) raises an error and returns
  the handle exactly as it was, so the vertex count and every attribute array are
  the prior ones. The rejection is the reference engine's; the binding makes no change
  of its own before or after the engine's call.
\<close>

theorem delete_vertices_out_of_range:
  "\<not> list_all (valid_vid (g self)) vids \<Longrightarrow>
   igraphmodule_Graph_delete_vertices ref_engine self [PyList (map PyInt vids)] =
     (Inl (EngineError IGRAPH_EINVVID), self,
      [Convert ''igraphmodule_PyList_to_vector_t'', Engine ''igraph_delete_vertices'',
       HandleError, Destroy ''igraph_vector_destroy''])"
proof -
  assume bad: "\<not> list_all (valid_vid (g self)) vids"
  have "igraph_delete_vertices ref_engine (g self) (VS_vector vids) = (IGRAPH_EINVVID, g self)"
    using bad by (simp add: ref_engine_def ref_delete_vertices_def vs_as_vector_def)
  moreover have "IGRAPH_EINVVID \<noteq> 0"
    by (simp add: IGRAPH_EINVVID_def)
  ultimately show ?thesis
    using delete_vertices_engine_failure[of ref_engine self vids IGRAPH_EINVVID "g self"]
    by simp
qed

theorem delete_vertices_out_of_range_witness:
  "\<not> list_all (valid_vid (g handle5)) [999]
   \<and> fst (igraphmodule_Graph_delete_vertices ref_engine handle5 [PyList [PyInt 999]])
       = Inl (EngineError 7)
   \<and> handle_after (igraphmodule_Graph_delete_vertices ref_engine handle5 [PyList [PyInt 999]])
       = handle5
   \<and> n (g handle5) = 5
   \<and> attr_vertex (the (attr (g handle5)))
       = [(''color'', PyList [PyInt 1, PyInt 2, PyInt 3, PyInt 4, PyInt 5])]"
proof -
  have v: "\<not> list_all (valid_vid (g handle5)) [999]"
    by (simp add: valid_vid_def igraph_vcount_def handle5_def five_def)
  show ?thesis
    using delete_vertices_out_of_range[OF v] v
    by (simp add: handle_after_def IGRAPH_EINVVID_def) (simp add: handle5_def five_def)
qed

subsection \<open>One graph, an iterable of graphs, or neither\<close>

text \<open>
  C7, as the code has it. For each of \<^verbatim>\<open>disjoint_union\<close>, \<^verbatim>\<open>union\<close> and
  \<^verbatim>\<open>intersection\<close>: an iterable argument is converted as a collection of graphs and
  given to the engine's n-ary function; an argument that is not iterable and is a Graph
  is given, with the handle's own graph, to the engine's binary function; any other
  argument makes the operator return the host's \<open>NotImplemented\<close> value, with no
  error raised, the handle unchanged and no call into the engine.
\<close>

theorem operators_dispatch:
  assumes "(f, many, two) \<in>
     {(igraphmodule_Graph_disjoint_union E, igraph_disjoint_union_many E, igraph_disjoint_union E),
      (igraphmodule_Graph_union E, igraph_union_many E, igraph_union E),
      (igraphmodule_Graph_intersection E, igraph_intersection_many E, igraph_intersection E)}"
  shows "(\<forall>it. PyObject_GetIter other = Some it \<longrightarrow>
            fst (f self other) =
              (case igraphmodule_PyIter_to_vector_ptr_t it of
                 Inl e \<Rightarrow> Inl e
               | Inr gs \<Rightarrow>
                   (case many gs of (rc, gnew) \<Rightarrow>
                      if rc \<noteq> 0 then Inl (EngineError rc) else new_graph_object E gnew)))
         \<and> (\<forall>o'. other = Graph o' \<longrightarrow>
            fst (f self other) =
              (case two (g self) (g o') of (rc, gnew) \<Rightarrow>
                 if rc \<noteq> 0 then Inl (EngineError rc) else new_graph_object E gnew))
         \<and> (PyObject_GetIter other = None \<and> (\<forall>o'. other \<noteq> Graph o') \<longrightarrow>
            f self other = (Inr (Plain PyNotImplemented), self, [PyErr_Clear]))"
proof -
  have body: "(\<forall>it. PyObject_GetIter other = Some it \<longrightarrow>
            fst (operator_body E mn m tn t self other) =
              (case igraphmodule_PyIter_to_vector_ptr_t it of
                 Inl e \<Rightarrow> Inl e
               | Inr gs \<Rightarrow>
                   (case m gs of (rc, gnew) \<Rightarrow>
                      if rc \<noteq> 0 then Inl (EngineError rc) else new_graph_object E gnew)))
         \<and> (\<forall>o'. other = Graph o' \<longrightarrow>
            fst (operator_body E mn m tn t self other) =
              (case t (g self) (g o') of (rc, gnew) \<Rightarrow>
                 if rc \<noteq> 0 then Inl (EngineError rc) else new_graph_object E gnew))
         \<and> (PyObject_GetIter other = None \<and> (\<forall>o'. other \<noteq> Graph o') \<longrightarrow>
            operator_body E mn m tn t self other
              = (Inr (Plain PyNotImplemented), self, [PyErr_Clear]))"
    for mn m tn t
    by (auto simp: operator_body_def PyObject_GetIter_def PyObject_TypeCheck_Graph_def
          split: sum.splits prod.splits pyany.splits)
  from assms consider
      "f = igraphmodule_Graph_disjoint_union E" "many = igraph_disjoint_union_many E"
      "two = igraph_disjoint_union E"
    | "f = igraphmodule_Graph_union E" "many = igraph_union_many E" "two = igraph_union E"
    | "f = igraphmodule_Graph_intersection E" "many = igraph_intersection_many E"
      "two = igraph_intersection E"
    by auto
  then show ?thesis
  proof cases
    case 1
    show ?thesis unfolding 1
      unfolding igraphmodule_Graph_disjoint_union_def by (rule body)
  next
    case 2
    show ?thesis unfolding 2
      unfolding igraphmodule_Graph_union_def by (rule body)
  next
    case 3
    show ?thesis unfolding 3
      unfolding igraphmodule_Graph_intersection_def by (rule body)
  qed
qed

theorem operators_dispatch_witness:
  "fst (igraphmodule_Graph_disjoint_union ref_engine handle5 (Sequence [Graph handle2]))
     = (case igraphmodule_PyIter_to_vector_ptr_t [Graph handle2] of
          Inl e \<Rightarrow> Inl e
        | Inr gs \<Rightarrow>
            (case igraph_disjoint_union_many ref_engine gs of (rc, gnew) \<Rightarrow>
               if rc \<noteq> 0 then Inl (EngineError rc) else new_graph_object ref_engine gnew))
   \<and> fst (igraphmodule_Graph_union ref_engine handle5 (Graph handle2))
     = (case igraph_union ref_engine (g handle5) (g handle2) of (rc, gnew) \<Rightarrow>
          if rc \<noteq> 0 then Inl (EngineError rc) else new_graph_object ref_engine gnew)
   \<and> igraphmodule_Graph_intersection ref_engine handle5 (Plain (PyInt 5))
     = (Inr (Plain PyNotImplemented), handle5, [PyErr_Clear])"
proof -
  have a: "PyObject_GetIter (Sequence [Graph handle2]) = Some [Graph handle2]"
    by (simp add: PyObject_GetIter_def)
  have c: "PyObject_GetIter (Plain (PyInt 5)) = None \<and> (\<forall>o'. Plain (PyInt 5) \<noteq> Graph o')"
    by (simp add: PyObject_GetIter_def)
  have m1: "(igraphmodule_Graph_disjoint_union ref_engine,
             igraph_disjoint_union_many ref_engine, igraph_disjoint_union ref_engine) \<in>
     {(igraphmodule_Graph_disjoint_union ref_engine, igraph_disjoint_union_many ref_engine,
       igraph_disjoint_union ref_engine),
      (igraphmodule_Graph_union ref_engine, igraph_union_many ref_engine,
       igraph_union ref_engine),
      (igraphmodule_Graph_intersection ref_engine, igraph_intersection_many ref_engine,
       igraph_intersection ref_engine)}"
    by simp
  have m2: "(igraphmodule_Graph_union ref_engine,
             igraph_union_many ref_engine, igraph_union ref_engine) \<in>
     {(igraphmodule_Graph_disjoint_union ref_engine, igraph_disjoint_union_many ref_engine,
       igraph_disjoint_union ref_engine),
      (igraphmodule_Graph_union ref_engine, igraph_union_many ref_engine,
       igraph_union ref_engine),
      (igraphmodule_Graph_intersection ref_engine, igraph_intersection_many ref_engine,
       igraph_intersection ref_engine)}"
    by simp
  have m3: "(igraphmodule_Graph_intersection ref_engine,
             igraph_intersection_many ref_engine, igraph_intersection ref_engine) \<in>
     {(igraphmodule_Graph_disjoint_union ref_engine, igraph_disjoint_union_many ref_engine,
       igraph_disjoint_union ref_engine),
      (igraphmodule_Graph_union ref_engine, igraph_union_many ref_engine,
       igraph_union ref_engine),
      (igraphmodule_Graph_intersection ref_engine, igraph_intersection_many ref_engine,
       igraph_intersection ref_engine)}"
    by simp
  show ?thesis
    using operators_dispatch[OF m1, of "Sequence [Graph handle2]" handle5, THEN conjunct1] a
          operators_dispatch[OF m2, of "Graph handle2" handle5, THEN conjunct2, THEN conjunct1]
          operators_dispatch[OF m3, of "Plain (PyInt 5)" handle5, THEN conjunct2, THEN conjunct2] c
    by blast
qed

text \<open>
  C7, as the claim states it, has the call fail with a type-mismatch error when the
  argument is neither iterable nor a Graph. On the integer 5 the operator raises
  nothing: it returns \<open>NotImplemented\<close>.
\<close>

theorem operators_not_implemented:
  "\<not> isl (fst (igraphmodule_Graph_disjoint_union ref_engine handle5 (Plain (PyInt 5))))
   \<and> igraphmodule_Graph_disjoint_union ref_engine handle5 (Plain (PyInt 5))
       = (Inr (Plain PyNotImplemented), handle5, [PyErr_Clear])"
  by (simp add: igraphmodule_Graph_disjoint_union_def operator_body_def PyObject_GetIter_def
        PyObject_TypeCheck_Graph_def)

subsection \<open>The disjoint union of two graphs\<close>

text \<open>
  The binding's part, for any engine: when the engine's binary disjoint union succeeds
  and the allocation does, the result is a fresh handle around the engine's graph, with
  no finalizer, no cached view and no weak reference.
\<close>

lemma disjoint_union_wraps:
  "igraph_disjoint_union E (g self) (g other) = (0, gnew) \<Longrightarrow> tp_alloc E \<Longrightarrow>
   fst (igraphmodule_Graph_disjoint_union E self (Graph other)) =
     Inr (Graph \<lparr>g = gnew, destructor = None, vseq = None, eseq = None,
                 weakreflist = None\<rparr>)"
  by (simp add: igraphmodule_Graph_disjoint_union_def operator_body_def
        PyObject_GetIter_def PyObject_TypeCheck_Graph_def new_graph_object_def
        igraphmodule_Graph_init_internal_def zeroed_def)

text \<open>
  C8. The disjoint union of a handle with another Graph returns a new Graph whose
  vertex count and edge count are the sums of the operands' counts and whose attribute
  store is empty in all three scopes; the new handle has no finalizer either. The
  engine's disjoint union is the one modelled from the spec; the binding wraps the
  graph it returns and copies nothing from the operands.
\<close>

theorem disjoint_union_counts:
  "\<exists>r. fst (igraphmodule_Graph_disjoint_union ref_engine self (Graph other)) = Inr (Graph r)
       \<and> n (g r) = n (g self) + n (g other)
       \<and> length (edges (g r)) = length (edges (g self)) + length (edges (g other))
       \<and> attr (g r) = Some \<lparr>attr_graph = [], attr_vertex = [], attr_edge = []\<rparr>
       \<and> destructor r = None"
  using disjoint_union_wraps[of ref_engine self other
          "snd (ref_disjoint_union (g self) (g other))"]
  by (simp add: ref_engine_def ref_disjoint_union_def empty_attrs_def)

theorem disjoint_union_counts_witness:
  "fst (igraphmodule_Graph_disjoint_union ref_engine handle5 (Graph handle2)) =
     Inr (Graph \<lparr>g = \<lparr>n = 7, directed = False, edges = [(0, 1), (1, 2), (2, 0), (5, 6)],
                      attr = Some \<lparr>attr_graph = [], attr_vertex = [], attr_edge = []\<rparr>\<rparr>,
                 destructor = None, vseq = None, eseq = None, weakreflist = None\<rparr>)"
  using disjoint_union_counts[of handle5 handle2]
  by (simp add: igraphmodule_Graph_disjoint_union_def operator_body_def
        PyObject_GetIter_def PyObject_TypeCheck_Graph_def ref_engine_def
        ref_disjoint_union_def new_graph_object_def igraphmodule_Graph_init_internal_def
        zeroed_def empty_attrs_def handle5_def five_def handle2_def pair2_def)

subsection \<open>The error bridge and the release of buffers\<close>

text \<open>
  C9 does not hold of the code. When the engine's n-ary disjoint union fails (here on
  a list that mixes an undirected and a directed graph), the operator destroys the
  vector of graphs first and calls \<^verbatim>\<open>igraphmodule_handle_igraph_error\<close> only after
  that: a cleanup call stands between the failing engine call and the error bridge.
\<close>

theorem disjoint_union_many_failure_order:
  "igraphmodule_Graph_disjoint_union strict_engine handle5
       (Sequence [Graph handle2, Graph handle_arrow]) =
     (Inl (EngineError 4), handle5,
      [Convert ''igraphmodule_PyIter_to_vector_ptr_t'', Py_DECREF (PyOpaque ''it''),
       Engine ''igraph_disjoint_union_many'', Destroy ''igraph_vector_ptr_destroy'',
       HandleError])
   \<and> happens_before (Destroy ''igraph_vector_ptr_destroy'') HandleError
        (calls_of (igraphmodule_Graph_disjoint_union strict_engine handle5
                     (Sequence [Graph handle2, Graph handle_arrow])))"
  by (simp add: igraphmodule_Graph_disjoint_union_def operator_body_def
        PyObject_GetIter_def strict_engine_def ref_engine_def handle2_def pair2_def
        handle_arrow_def arrow2_def IGRAPH_EINVAL_def happens_before_def calls_of_def)

subsection \<open>The root of a breadth-first search\<close>

text \<open>
  What the check of \<^verbatim>\<open>bfs\<close> decides, for any engine and any earlier content \<open>vid0\<close> of
  the stack slot: it is the value left in the \<^verbatim>\<open>long\<close> that is compared, not the
  root id that was passed.
\<close>

lemma bfs_check_on_stored_value:
  assumes "INT_MIN \<le> root" and "root \<le> INT_MAX"
  shows "(fst (igraphmodule_Graph_bfs E vid0 self [PyInt root])
            = Inl (ValueError ''invalid vertex id''))
           = (store_int_in_long vid0 root < 0
              \<or> store_int_in_long vid0 root > igraph_vcount (g self))"
proof -
  have parsed: "PyArg_ParseTuple_i_i IGRAPH_OUT [PyInt root] = Inr (root, IGRAPH_OUT)"
    using assms by (simp add: PyArg_ParseTuple_i_i_def as_c_integer_def)
  show ?thesis
    unfolding igraphmodule_Graph_bfs_def parsed
    by (auto simp: Let_def split: prod.splits)
qed

text \<open>
  When the high half of the slot happens to be the sign extension of the root id, the
  stored value is the root id, and the check is then the one written in the source.
\<close>

lemma store_int_in_long_clean:
  assumes "INT_MIN \<le> root" and "root \<le> INT_MAX"
    and "vid0 div 2 ^ 32 = (if root < 0 then - 1 else 0)"
  shows "store_int_in_long vid0 root = root"
proof (cases "root < 0")
  case True
  have "(root + 2 ^ 32) mod 2 ^ 32 = root + 2 ^ 32"
    using True assms(1) by (intro mod_pos_pos_trivial) (simp_all add: INT_MIN_def)
  then have "root mod 2 ^ 32 = root + 2 ^ 32"
    by simp
  then show ?thesis
    using True assms(3) by (simp add: store_int_in_long_def)
next
  case False
  then have "root mod 2 ^ 32 = root"
    using assms(2) by (simp add: INT_MAX_def)
  then show ?thesis
    using False assms(3) by (simp add: store_int_in_long_def)
qed

text \<open>
  C10 does not hold of the code. On a graph of five vertices, \<^verbatim>\<open>bfs(5)\<close> with a
  stack slot whose high half is not zero (here the slot held \<open>2 ^ 32\<close>) leaves
  \<open>2 ^ 32 + 5\<close> in \<^verbatim>\<open>vid\<close>: the check raises the ValueError \<open>invalid vertex id\<close>
  and the engine is not called, although the root id equals the vertex count.
\<close>

theorem bfs_root_equal_to_count_rejected:
  "igraph_vcount (g handle5) = 5
   \<and> store_int_in_long (2 ^ 32) 5 = 2 ^ 32 + 5
   \<and> igraphmodule_Graph_bfs ref_engine (2 ^ 32) handle5 [PyInt 5]
       = (Inl (ValueError ''invalid vertex id''), handle5, [])"
proof -
  have v: "igraph_vcount (g handle5) = 5"
    by (simp add: igraph_vcount_def handle5_def five_def)
  have st: "store_int_in_long (2 ^ 32) 5 = 2 ^ 32 + 5"
    by (simp add: store_int_in_long_def)
  have parsed: "PyArg_ParseTuple_i_i IGRAPH_OUT [PyInt 5] = Inr (5, IGRAPH_OUT)"
    by (simp add: PyArg_ParseTuple_i_i_def as_c_integer_def INT_MIN_def INT_MAX_def)
  have "igraphmodule_Graph_bfs ref_engine (2 ^ 32) handle5 [PyInt 5]
          = (Inl (ValueError ''invalid vertex id''), handle5, [])"
    unfolding igraphmodule_Graph_bfs_def parsed
    by (simp add: Let_def store_int_in_long_def v)
  then show ?thesis using v st by simp
qed

end
